theory Spec2Isabelle
  imports Main "HOL-Library.Sublist"
begin

section \<open>Python values and built-ins used by \<^verbatim>\<open>cto_ai_code.py\<close>\<close>

text \<open>
  A Python \<^verbatim>\<open>str\<close> is a sequence of code points, lone surrogates included. It is
  modelled as a \<^typ>\<open>string\<close>, read as the bytes UTF-8 writes for each code point in turn,
  a surrogate as the three bytes \<open>ED A0..BF 80..BF\<close> (what Python's \<^verbatim>\<open>surrogatepass\<close>
  writes). Every \<^verbatim>\<open>str\<close> has exactly one such byte string; the code points below 128 are
  the bytes below 128 and occur only as themselves; one \<^verbatim>\<open>str\<close> is a substring of another
  exactly when its bytes are a contiguous part of the other's. The program never measures
  the length of a string; it splits on the line feed, concatenates, and upper-cases.
  Every call yields either an exception or a value: \<open>Inl\<close> carries the exception.
\<close>

datatype error = ValueError string | UnicodeEncodeError string

datatype pyval = VStr string | VInt int | VList "string list"

type_synonym dict = "(string \<times> pyval) list"

text \<open>
  Truth value of an \<^verbatim>\<open>Optional[str]\<close>: \<^verbatim>\<open>None\<close> and the empty string are false, every other
  string is true. This is what \<^verbatim>\<open>api_key or ...\<close> and \<^verbatim>\<open>not self.api_key\<close> test.
\<close>

fun truthy :: "string option \<Rightarrow> bool" where
  "truthy None = False"
| "truthy (Some s) = (s \<noteq> [])"

text \<open>
  \<^verbatim>\<open>s.split(sep)\<close>: the pieces of \<open>s\<close> between the occurrences of \<open>sep\<close>, found left to
  right without overlap. An empty separator raises \<^verbatim>\<open>ValueError\<close>. \<open>split_from c cs acc s\<close>
  scans \<open>s\<close> for the separator \<open>c # cs\<close>, with \<open>acc\<close> the current piece, reversed.
\<close>

function split_from :: "char \<Rightarrow> string \<Rightarrow> string \<Rightarrow> string \<Rightarrow> string list" where
  "split_from c cs acc [] = [rev acc]"
| "split_from c cs acc (x # xs) =
     (if prefix (c # cs) (x # xs) then rev acc # split_from c cs [] (drop (length cs) xs)
      else split_from c cs (x # acc) xs)"
  by pat_completeness auto
termination
  by (relation "measure (\<lambda>(c, cs, acc, s). length s)") auto

definition str_split :: "string \<Rightarrow> string \<Rightarrow> error + string list" where
  "str_split s sep =
     (case sep of
        [] \<Rightarrow> Inl (ValueError ''empty separator'')
      | c # cs \<Rightarrow> Inr (split_from c cs [] s))"

definition len :: "'a list \<Rightarrow> int" where
  "len xs = int (length xs)"

text \<open>\<^verbatim>\<open>str(i)\<close> of an integer, as an f-string field formats it: decimal, no padding.\<close>

definition digit_char :: "nat \<Rightarrow> char" where
  "digit_char d = char_of (48 + d)"

function str_nat :: "nat \<Rightarrow> string" where
  "str_nat n = (if n < 10 then [digit_char n] else str_nat (n div 10) @ [digit_char (n mod 10)])"
  by pat_completeness auto
termination
  by (relation "measure id") auto

declare str_nat.simps [simp del]

definition str_int :: "int \<Rightarrow> string" where
  "str_int i = (if i < 0 then CHR ''-'' # str_nat (nat (- i)) else str_nat (nat i))"

section \<open>The process: runtime tables, environment and standard output\<close>

text \<open>
  The constructor upper-cases, reads the process environment and may print. What these do
  depends on the run, so the run is a value:
  \<^item> \<open>environ\<close> is the environment as the constructor finds it (after the module's
    \<^verbatim>\<open>load_dotenv()\<close>), by variable name;
  \<^item> \<open>stdout\<close> is what has been printed so far;
  \<^item> \<open>getenv_log\<close> records, in order, the names that \<^verbatim>\<open>os.getenv\<close> has been called with:
    it makes "the environment was not consulted" a statement about the state;
  \<^item> \<open>unicode_upper\<close> is \<^verbatim>\<open>str.upper()\<close> on the strings that are not all ASCII. It is the
    full case mapping of the interpreter's Unicode database (\<open>U+00E9\<close> goes to \<open>U+00C9\<close>,
    \<open>U+00DF\<close> to \<open>SS\<close>), a table that is not part of the source: it is a parameter;
  \<^item> \<open>fs_encodes name\<close> tells whether \<^verbatim>\<open>os.getenv\<close> can encode \<open>name\<close> in the filesystem
    encoding (with \<^verbatim>\<open>surrogateescape\<close>), and \<open>stdout_encodes text\<close> whether standard output
    can encode \<open>text\<close> in its encoding: where they cannot, the call raises
    \<^verbatim>\<open>UnicodeEncodeError\<close>. The stream is taken to be open and to accept what it can encode.
\<close>

record world =
  environ :: "string \<rightharpoonup> string"
  getenv_log :: "string list"
  stdout :: string
  unicode_upper :: "string \<Rightarrow> string"
  fs_encodes :: "string \<Rightarrow> bool"
  stdout_encodes :: "string \<Rightarrow> bool"

text \<open>
  \<^verbatim>\<open>str.upper()\<close>, as CPython computes it: a string of ASCII code points only is mapped byte
  by byte, \<open>a\<close>..\<open>z\<close> (97..122) to \<open>A\<close>..\<open>Z\<close> and every other byte kept; any other string goes
  through the Unicode case mapping.
\<close>

definition upper_char :: "char \<Rightarrow> char" where
  "upper_char c =
     (let n = (of_char c :: nat) in if 97 \<le> n \<and> n \<le> 122 then char_of (n - 32) else c)"

definition isascii :: "string \<Rightarrow> bool" where
  "isascii s = list_all (\<lambda>c. (of_char c :: nat) < 128) s"

definition upper :: "world \<Rightarrow> string \<Rightarrow> string" where
  "upper w s = (if isascii s then map upper_char s else unicode_upper w s)"

subsection \<open>\<^verbatim>\<open>os.getenv\<close> and \<^verbatim>\<open>print\<close>\<close>

text \<open>
  \<^verbatim>\<open>os.getenv(name)\<close> encodes the name, which raises when the name cannot be encoded, and
  then looks it up: the value, or \<^verbatim>\<open>None\<close>. The call is logged either way.
\<close>

definition getenv :: "string \<Rightarrow> world \<Rightarrow> (error + string option) \<times> world" where
  "getenv name w =
     (if fs_encodes w name
      then (Inr (environ w name), w\<lparr>getenv_log := getenv_log w @ [name]\<rparr>)
      else (Inl (UnicodeEncodeError name), w\<lparr>getenv_log := getenv_log w @ [name]\<rparr>))"

text \<open>
  \<^verbatim>\<open>print(s)\<close> writes \<open>s\<close> and then the line feed. The text is encoded before any of it is
  written, so a text that cannot be encoded raises and leaves the output as it was.
\<close>

definition print :: "string \<Rightarrow> world \<Rightarrow> (error + unit) \<times> world" where
  "print s w =
     (if stdout_encodes w s
      then (Inr (), w\<lparr>stdout := stdout w @ s @ ''\<newline>''\<rparr>)
      else (Inl (UnicodeEncodeError s), w))"

section \<open>Class \<^verbatim>\<open>CTOAICode\<close>\<close>

record CTOAICode =
  provider :: string
  api_key :: "string option"

text \<open>
  \<^verbatim>\<open>__init__(self, api_key=None, provider="openai")\<close>. The right operand of \<^verbatim>\<open>or\<close> is
  evaluated only when the left one is false, so \<^verbatim>\<open>provider.upper()\<close> and \<^verbatim>\<open>os.getenv\<close> are
  called only then. An exception of \<^verbatim>\<open>os.getenv\<close> or of \<^verbatim>\<open>print\<close> leaves the constructor:
  no object is returned.
\<close>

definition init :: "string option \<Rightarrow> string \<Rightarrow> world \<Rightarrow> (error + CTOAICode) \<times> world" where
  "init api_key' provider' w =
     (case (if truthy api_key' then (Inr api_key', w)
            else getenv (upper w provider' @ ''_API_KEY'') w) of
        (Inl e, w1) \<Rightarrow> (Inl e, w1)
      | (Inr key, w1) \<Rightarrow>
          (let self = \<lparr>provider = provider', api_key = key\<rparr>
           in if \<not> truthy (api_key self)
              then (case print (''Warning: No API key provided for '' @ provider') w1 of
                      (Inl e, w2) \<Rightarrow> (Inl e, w2)
                    | (Inr u, w2) \<Rightarrow> (Inr self, w2))
              else (Inr self, w1)))"

text \<open>
  The three mock methods (\<^verbatim>\<open>_mock_generate_code\<close>, \<^verbatim>\<open>_mock_review_code\<close>,
  \<^verbatim>\<open>_mock_explain_code\<close> in the source; an Isabelle name cannot start with an underscore).
  \<open>CHR 0x22\<close> is the double quote.
\<close>

definition mock_generate_code :: "CTOAICode \<Rightarrow> string \<Rightarrow> string \<Rightarrow> error + string" where
  "mock_generate_code self prompt language =
     Inr (''# Generated '' @ language @ '' code for: '' @ prompt @ ''\<newline>''
       @ ''\<newline>''
       @ ''def example_function():\<newline>''
       @ ''    '' @ [CHR 0x22, CHR 0x22, CHR 0x22] @ ''\<newline>''
       @ ''    This is a mock implementation.\<newline>''
       @ ''    In production, this would use an AI API to generate actual code.\<newline>''
       @ ''    '' @ [CHR 0x22, CHR 0x22, CHR 0x22] @ ''\<newline>''
       @ ''    print('' @ [CHR 0x22] @ ''Hello from CTO AI Code!'' @ [CHR 0x22] @ '')\<newline>''
       @ ''    return True\<newline>'')"

definition mock_review_code :: "CTOAICode \<Rightarrow> string \<Rightarrow> error + dict" where
  "mock_review_code self code =
     Inr [(''status'', VStr ''success''),
          (''issues'', VList []),
          (''suggestions'', VList [''Consider adding more comments'',
                                   ''Add type hints for better code clarity'']),
          (''score'', VInt 85),
          (''summary'', VStr ''Code looks good overall. Minor improvements suggested.'')]"

definition mock_explain_code :: "CTOAICode \<Rightarrow> string \<Rightarrow> error + string" where
  "mock_explain_code self code =
     (case str_split code ''\<newline>'' of
        Inl e \<Rightarrow> Inl e
      | Inr segments \<Rightarrow>
          (let lines = len segments
           in Inr (''Code Analysis:\<newline>''
                @ ''- This code has '' @ str_int lines @ '' lines\<newline>''
                @ ''- In production, this would provide detailed explanation using AI\<newline>''
                @ ''- Currently running in mock mode without API key\<newline>'')))"

text \<open>The three public methods. Both branches of each are kept as the source has them.\<close>

definition generate_code :: "CTOAICode \<Rightarrow> string \<Rightarrow> string \<Rightarrow> error + string" where
  "generate_code self prompt language =
     (if \<not> truthy (api_key self) then mock_generate_code self prompt language
      else mock_generate_code self prompt language)"

definition review_code :: "CTOAICode \<Rightarrow> string \<Rightarrow> error + dict" where
  "review_code self code =
     (if \<not> truthy (api_key self) then mock_review_code self code
      else mock_review_code self code)"

definition explain_code :: "CTOAICode \<Rightarrow> string \<Rightarrow> error + string" where
  "explain_code self code =
     (if \<not> truthy (api_key self) then mock_explain_code self code
      else mock_explain_code self code)"

section \<open>A sample run\<close>

text \<open>
  The examples below run in a process as Python starts it on a POSIX system with a UTF-8
  locale: an empty environment, nothing printed yet, and both encodings UTF-8.

  \<^item> The filesystem encoding uses \<^verbatim>\<open>surrogateescape\<close>: it encodes every code point but the
    surrogates outside \<open>U+DC80..U+DCFF\<close>. In the bytes of a string a surrogate is \<open>ED\<close>
    followed by a byte from \<open>A0\<close> on, and those of \<open>U+DC80..U+DCFF\<close> have \<open>B2\<close> or \<open>B3\<close>
    there.
  \<^item> Standard output is strict: it encodes every code point but the surrogates.
  \<^item> Two providers beyond ASCII are used: \<open>e_acute\<close> (\<open>U+00E9\<close>, bytes \<open>C3 A9\<close>), whose upper
    case is \<open>capital_e_acute\<close> (\<open>U+00C9\<close>, bytes \<open>C3 89\<close>), and \<open>lone_surrogate\<close> (\<open>U+D800\<close>,
    bytes \<open>ED A0 80\<close>), which has no case and is its own upper case. \<open>sample_unicode_upper\<close>
    is the Unicode case mapping on these two strings; it stands for the interpreter's
    table in the examples only, which apply it to no other string. Every theorem below
    that is not about the sample run holds for every table.
\<close>

definition e_acute :: string where
  "e_acute = [CHR 0xC3, CHR 0xA9]"

definition capital_e_acute :: string where
  "capital_e_acute = [CHR 0xC3, CHR 0x89]"

definition lone_surrogate :: string where
  "lone_surrogate = [CHR 0xED, CHR 0xA0, CHR 0x80]"

definition sample_unicode_upper :: "string \<Rightarrow> string" where
  "sample_unicode_upper s = (if s = e_acute then capital_e_acute else s)"

fun utf8_surrogateescape_encodes :: "string \<Rightarrow> bool" where
  "utf8_surrogateescape_encodes (x # y # ys) =
     (if (of_char x :: nat) = 0xED \<and> 0xA0 \<le> (of_char y :: nat)
         \<and> (of_char y :: nat) \<noteq> 0xB2 \<and> (of_char y :: nat) \<noteq> 0xB3
      then False
      else utf8_surrogateescape_encodes (y # ys))"
| "utf8_surrogateescape_encodes s = True"

fun utf8_strict_encodes :: "string \<Rightarrow> bool" where
  "utf8_strict_encodes (x # y # ys) =
     (if (of_char x :: nat) = 0xED \<and> 0xA0 \<le> (of_char y :: nat)
      then False
      else utf8_strict_encodes (y # ys))"
| "utf8_strict_encodes s = True"

definition posix_utf8_world :: world where
  "posix_utf8_world =
     \<lparr>environ = Map.empty, getenv_log = [], stdout = [],
      unicode_upper = sample_unicode_upper,
      fs_encodes = utf8_surrogateescape_encodes,
      stdout_encodes = utf8_strict_encodes\<rparr>"

section \<open>Facts about the built-ins and the dispatch\<close>

text \<open>
  With a one-character separator, \<open>split_from\<close> returns one piece more than the
  separator occurs: each occurrence closes a piece, the end of the string the last one.
\<close>

lemma split_from_single_length:
  "length (split_from c [] acc s) = Suc (count_list s c)"
  by (induction s arbitrary: acc) auto

lemma str_split_newline:
  "str_split code ''\<newline>'' = Inr (split_from (CHR ''\<newline>'') [] [] code)"
  by (simp add: str_split_def)

lemma str_int_1: "str_int 1 = ''1''"
  by code_simp

lemma str_int_2: "str_int 2 = ''2''"
  by code_simp

lemma str_int_3: "str_int 3 = ''3''"
  by code_simp

lemma upper_openai: "upper w ''openai'' @ ''_API_KEY'' = ''OPENAI_API_KEY''"
proof -
  have "isascii ''openai''"
    by (simp add: isascii_def)
  moreover have "map upper_char ''openai'' = ''OPENAI''"
    by code_simp
  ultimately show ?thesis
    by (simp add: upper_def)
qed

text \<open>Each public method calls its mock method on both branches of the key test.\<close>

lemma generate_code_mock:
  "generate_code self prompt language = mock_generate_code self prompt language"
  by (simp add: generate_code_def)

lemma review_code_mock: "review_code self code = mock_review_code self code"
  by (simp add: review_code_def)

lemma explain_code_mock: "explain_code self code = mock_explain_code self code"
  by (simp add: explain_code_def)

lemma mock_explain_code_count:
  "mock_explain_code self code =
     Inr (''Code Analysis:\<newline>''
       @ ''- This code has '' @ str_int (int (Suc (count_list code (CHR ''\<newline>''))))
       @ '' lines\<newline>''
       @ ''- In production, this would provide detailed explanation using AI\<newline>''
       @ ''- Currently running in mock mode without API key\<newline>'')"
  by (simp add: mock_explain_code_def str_split_newline len_def split_from_single_length)

text \<open>
  The constructor, by the truth value of the explicit key. A true key is kept and the
  process is left as it was. Otherwise \<^verbatim>\<open>os.getenv\<close> is called with the upper-cased
  provider followed by \<open>_API_KEY\<close>: a name that cannot be encoded raises; a true value
  found becomes the key; a false one (nothing, or the empty string) becomes the key after
  the warning is printed, and a warning that cannot be encoded raises.
\<close>

lemma init_explicit:
  "key \<noteq> [] \<Longrightarrow> init (Some key) p w = (Inr \<lparr>provider = p, api_key = Some key\<rparr>, w)"
  by (simp add: init_def)

lemma init_fallback_log:
  "\<not> truthy k \<Longrightarrow>
   getenv_log (snd (init k p w)) = getenv_log w @ [upper w p @ ''_API_KEY'']"
  by (simp add: init_def getenv_def print_def Let_def)

lemma init_fallback_unencodable_name:
  "\<not> truthy k \<Longrightarrow> \<not> fs_encodes w (upper w p @ ''_API_KEY'') \<Longrightarrow>
   init k p w =
     (Inl (UnicodeEncodeError (upper w p @ ''_API_KEY'')),
      w\<lparr>getenv_log := getenv_log w @ [upper w p @ ''_API_KEY'']\<rparr>)"
  by (simp add: init_def getenv_def)

lemma init_fallback_found:
  "\<not> truthy k \<Longrightarrow> fs_encodes w (upper w p @ ''_API_KEY'') \<Longrightarrow>
   truthy (environ w (upper w p @ ''_API_KEY'')) \<Longrightarrow>
   init k p w =
     (Inr \<lparr>provider = p, api_key = environ w (upper w p @ ''_API_KEY'')\<rparr>,
      w\<lparr>getenv_log := getenv_log w @ [upper w p @ ''_API_KEY'']\<rparr>)"
  by (simp add: init_def getenv_def)

lemma init_fallback_warned:
  "\<not> truthy k \<Longrightarrow> fs_encodes w (upper w p @ ''_API_KEY'') \<Longrightarrow>
   \<not> truthy (environ w (upper w p @ ''_API_KEY'')) \<Longrightarrow>
   stdout_encodes w (''Warning: No API key provided for '' @ p) \<Longrightarrow>
   init k p w =
     (Inr \<lparr>provider = p, api_key = environ w (upper w p @ ''_API_KEY'')\<rparr>,
      w\<lparr>getenv_log := getenv_log w @ [upper w p @ ''_API_KEY''],
        stdout := stdout w @ ''Warning: No API key provided for '' @ p @ ''\<newline>''\<rparr>)"
  by (simp add: init_def getenv_def print_def)

lemma init_fallback_unencodable_warning:
  "\<not> truthy k \<Longrightarrow> fs_encodes w (upper w p @ ''_API_KEY'') \<Longrightarrow>
   \<not> truthy (environ w (upper w p @ ''_API_KEY'')) \<Longrightarrow>
   \<not> stdout_encodes w (''Warning: No API key provided for '' @ p) \<Longrightarrow>
   init k p w =
     (Inl (UnicodeEncodeError (''Warning: No API key provided for '' @ p)),
      w\<lparr>getenv_log := getenv_log w @ [upper w p @ ''_API_KEY'']\<rparr>)"
  by (simp add: init_def getenv_def print_def)

lemma init_fallback_returns_iff:
  "\<not> truthy k \<Longrightarrow>
   (\<exists>self. fst (init k p w) = Inr self) =
     (fs_encodes w (upper w p @ ''_API_KEY'') \<and>
      (truthy (environ w (upper w p @ ''_API_KEY'')) \<or>
       stdout_encodes w (''Warning: No API key provided for '' @ p)))"
  by (simp add: init_def getenv_def print_def Let_def)

text \<open>The sample run: upper-casing and encodability of the names and texts used.\<close>

lemma upper_lone_surrogate:
  "upper posix_utf8_world lone_surrogate @ ''_API_KEY'' = lone_surrogate @ ''_API_KEY''"
  by (simp add: upper_def isascii_def lone_surrogate_def posix_utf8_world_def
        sample_unicode_upper_def e_acute_def)

lemma upper_e_acute:
  "upper posix_utf8_world e_acute @ ''_API_KEY'' = capital_e_acute @ ''_API_KEY''"
  by (simp add: upper_def isascii_def posix_utf8_world_def
        sample_unicode_upper_def e_acute_def)

lemma lone_surrogate_name_unencodable:
  "\<not> fs_encodes posix_utf8_world (lone_surrogate @ ''_API_KEY'')"
  by (simp add: posix_utf8_world_def lone_surrogate_def)

lemma openai_name_encodable: "fs_encodes posix_utf8_world ''OPENAI_API_KEY''"
  by (simp add: posix_utf8_world_def)

lemma openai_warning_encodable:
  "stdout_encodes posix_utf8_world (''Warning: No API key provided for '' @ ''openai'')"
  by (simp add: posix_utf8_world_def)

lemma e_acute_name_encodable:
  "fs_encodes posix_utf8_world (capital_e_acute @ ''_API_KEY'')"
  by (simp add: posix_utf8_world_def capital_e_acute_def)

section \<open>Review results\<close>

text \<open>
  C1. For every input string, also the empty one and one of blanks only, \<open>review_code\<close>
  returns the fixed dictionary: status \<open>success\<close>, no issues, exactly the two fixed
  suggestions, score 85 and the fixed summary.
\<close>

theorem review_code_fixed_result:
  "review_code self code =
     Inr [(''status'', VStr ''success''),
          (''issues'', VList []),
          (''suggestions'', VList [''Consider adding more comments'',
                                   ''Add type hints for better code clarity'']),
          (''score'', VInt 85),
          (''summary'', VStr ''Code looks good overall. Minor improvements suggested.'')]"
  by (simp add: review_code_def mock_review_code_def)

text \<open>
  C9. \<open>review_code\<close> does not depend on the code it is given: on the same object, any two
  code strings get equal results.
\<close>

theorem review_code_content_independent:
  "review_code self code1 = review_code self code2"
  by (simp add: review_code_mock mock_review_code_def)

section \<open>Explanations\<close>

text \<open>
  C2. For every code string, \<open>code.split('\n')\<close> succeeds, the explanation returned by
  \<open>explain_code\<close> carries the decimal of the number of its pieces between the fixed texts,
  and that number is one more than the number of line feeds in the code. So the empty
  string is reported with 1 line, \<open>a\nb\<close> with 2 and \<open>a\nb\n\<close> with 3.
\<close>

theorem explain_code_line_count:
  "(\<exists>segments.
      str_split code ''\<newline>'' = Inr segments \<and>
      length segments = Suc (count_list code (CHR ''\<newline>'')) \<and>
      explain_code self code =
        Inr (''Code Analysis:\<newline>''
          @ ''- This code has '' @ str_int (len segments) @ '' lines\<newline>''
          @ ''- In production, this would provide detailed explanation using AI\<newline>''
          @ ''- Currently running in mock mode without API key\<newline>'')) \<and>
   explain_code self '''' =
     Inr (''Code Analysis:\<newline>''
       @ ''- This code has 1 lines\<newline>''
       @ ''- In production, this would provide detailed explanation using AI\<newline>''
       @ ''- Currently running in mock mode without API key\<newline>'') \<and>
   explain_code self ''a\<newline>b'' =
     Inr (''Code Analysis:\<newline>''
       @ ''- This code has 2 lines\<newline>''
       @ ''- In production, this would provide detailed explanation using AI\<newline>''
       @ ''- Currently running in mock mode without API key\<newline>'') \<and>
   explain_code self ''a\<newline>b\<newline>'' =
     Inr (''Code Analysis:\<newline>''
       @ ''- This code has 3 lines\<newline>''
       @ ''- In production, this would provide detailed explanation using AI\<newline>''
       @ ''- Currently running in mock mode without API key\<newline>'')"
proof -
  have general: "\<exists>segments.
      str_split code ''\<newline>'' = Inr segments \<and>
      length segments = Suc (count_list code (CHR ''\<newline>'')) \<and>
      explain_code self code =
        Inr (''Code Analysis:\<newline>''
          @ ''- This code has '' @ str_int (len segments) @ '' lines\<newline>''
          @ ''- In production, this would provide detailed explanation using AI\<newline>''
          @ ''- Currently running in mock mode without API key\<newline>'')"
    by (simp add: explain_code_mock mock_explain_code_def str_split_newline
          split_from_single_length)
  have one: "explain_code self '''' =
     Inr (''Code Analysis:\<newline>''
       @ ''- This code has 1 lines\<newline>''
       @ ''- In production, this would provide detailed explanation using AI\<newline>''
       @ ''- Currently running in mock mode without API key\<newline>'')"
    by (simp add: explain_code_mock mock_explain_code_count str_int_1)
  have two: "explain_code self ''a\<newline>b'' =
     Inr (''Code Analysis:\<newline>''
       @ ''- This code has 2 lines\<newline>''
       @ ''- In production, this would provide detailed explanation using AI\<newline>''
       @ ''- Currently running in mock mode without API key\<newline>'')"
    by (simp add: explain_code_mock mock_explain_code_count str_int_2)
  have three: "explain_code self ''a\<newline>b\<newline>'' =
     Inr (''Code Analysis:\<newline>''
       @ ''- This code has 3 lines\<newline>''
       @ ''- In production, this would provide detailed explanation using AI\<newline>''
       @ ''- Currently running in mock mode without API key\<newline>'')"
    by (simp add: explain_code_mock mock_explain_code_count str_int_3)
  from general one two three show ?thesis by blast
qed

section \<open>Generated code\<close>

text \<open>
  C3. \<open>generate_code\<close> is a function of the prompt and the language alone: it returns the
  same string on every object, hence at every call on one object, and that string
  contains the prompt and the language as contiguous substrings.
\<close>

theorem generate_code_pure:
  "\<exists>s. generate_code self prompt language = Inr s \<and>
       (\<forall>self'. generate_code self' prompt language = Inr s) \<and>
       sublist prompt s \<and> sublist language s"
proof -
  let ?pre = "''# Generated ''"
  let ?mid = "'' code for: ''"
  obtain rest
    where here: "mock_generate_code self prompt language =
                   Inr (?pre @ language @ ?mid @ prompt @ rest)"
      and anywhere: "\<And>self'. mock_generate_code self' prompt language =
                   Inr (?pre @ language @ ?mid @ prompt @ rest)"
    by (simp add: mock_generate_code_def)
  let ?s = "?pre @ language @ ?mid @ prompt @ rest"
  have "sublist prompt ?s"
    using sublist_appendI [of prompt "?pre @ language @ ?mid" rest] by simp
  moreover have "sublist language ?s"
    using sublist_appendI [of language ?pre "?mid @ prompt @ rest"] by simp
  ultimately show ?thesis
    using here anywhere by (auto simp only: generate_code_mock)
qed

section \<open>Absence of exceptions and the key test\<close>

text \<open>
  C4. On every object and for all string arguments, the empty string included, each of
  \<open>generate_code\<close>, \<open>review_code\<close> and \<open>explain_code\<close> returns a value: none raises.
  For \<open>explain_code\<close> this says that the \<open>ValueError\<close> of \<open>split\<close> is never reached.
\<close>

theorem operations_never_raise:
  "(\<exists>s. generate_code self prompt language = Inr s) \<and>
   (\<exists>d. review_code self code = Inr d) \<and>
   (\<exists>s. explain_code self code = Inr s)"
  by (simp add: generate_code_mock review_code_mock explain_code_mock
        mock_generate_code_def mock_review_code_def mock_explain_code_count)

text \<open>
  C6. Each public method returns what its mock method returns, whatever the key of the
  object is; so an object with a key and the same object without one answer alike.
\<close>

theorem key_test_is_immaterial:
  "generate_code self prompt language = mock_generate_code self prompt language \<and>
   review_code self code = mock_review_code self code \<and>
   explain_code self code = mock_explain_code self code \<and>
   generate_code (self\<lparr>api_key := Some key\<rparr>) prompt language =
     generate_code (self\<lparr>api_key := None\<rparr>) prompt language \<and>
   review_code (self\<lparr>api_key := Some key\<rparr>) code =
     review_code (self\<lparr>api_key := None\<rparr>) code \<and>
   explain_code (self\<lparr>api_key := Some key\<rparr>) code =
     explain_code (self\<lparr>api_key := None\<rparr>) code"
  by (simp add: generate_code_mock review_code_mock explain_code_mock
        mock_generate_code_def mock_review_code_def mock_explain_code_def)

section \<open>Construction and key resolution\<close>

text \<open>
  C5, as the code has it. For every provider \<open>p\<close> whose variable name (the upper-cased
  provider followed by \<open>_API_KEY\<close>) the filesystem encoding can encode and whose warning
  line standard output can encode: constructed without an explicit key in a process
  whose environment has no variable of that name, the object is returned (no exception)
  with \<open>api_key = None\<close>; the only output is the one warning line, and the environment
  is unchanged. On that object each of the three methods returns a value, the one of its
  mock method.
\<close>

theorem init_missing_key:
  assumes "environ w (upper w p @ ''_API_KEY'') = None"
    and "fs_encodes w (upper w p @ ''_API_KEY'')"
    and "stdout_encodes w (''Warning: No API key provided for '' @ p)"
  shows "init None p w =
           (Inr \<lparr>provider = p, api_key = None\<rparr>,
            w\<lparr>getenv_log := getenv_log w @ [upper w p @ ''_API_KEY''],
              stdout := stdout w @ ''Warning: No API key provided for '' @ p @ ''\<newline>''\<rparr>) \<and>
         (\<exists>s. generate_code \<lparr>provider = p, api_key = None\<rparr> prompt language = Inr s \<and>
              mock_generate_code \<lparr>provider = p, api_key = None\<rparr> prompt language = Inr s) \<and>
         (\<exists>d. review_code \<lparr>provider = p, api_key = None\<rparr> code = Inr d \<and>
              mock_review_code \<lparr>provider = p, api_key = None\<rparr> code = Inr d) \<and>
         (\<exists>s. explain_code \<lparr>provider = p, api_key = None\<rparr> code = Inr s \<and>
              mock_explain_code \<lparr>provider = p, api_key = None\<rparr> code = Inr s)"
proof -
  have "init None p w =
           (Inr \<lparr>provider = p, api_key = None\<rparr>,
            w\<lparr>getenv_log := getenv_log w @ [upper w p @ ''_API_KEY''],
              stdout := stdout w @ ''Warning: No API key provided for '' @ p @ ''\<newline>''\<rparr>)"
    using assms init_fallback_warned [of None w p] by simp
  moreover
  have "\<exists>s. mock_generate_code \<lparr>provider = p, api_key = None\<rparr> prompt language = Inr s"
    by (simp add: mock_generate_code_def)
  moreover
  have "\<exists>d. mock_review_code \<lparr>provider = p, api_key = None\<rparr> code = Inr d"
    by (simp add: mock_review_code_def)
  moreover
  have "\<exists>s. mock_explain_code \<lparr>provider = p, api_key = None\<rparr> code = Inr s"
    by (simp add: mock_explain_code_count)
  ultimately show ?thesis
    by (simp only: generate_code_mock review_code_mock explain_code_mock simp_thms)
qed

theorem init_missing_key_witness:
  "environ posix_utf8_world (upper posix_utf8_world ''openai'' @ ''_API_KEY'') = None \<and>
   fs_encodes posix_utf8_world (upper posix_utf8_world ''openai'' @ ''_API_KEY'') \<and>
   stdout_encodes posix_utf8_world (''Warning: No API key provided for '' @ ''openai'') \<and>
   init None ''openai'' posix_utf8_world =
     (Inr \<lparr>provider = ''openai'', api_key = None\<rparr>,
      posix_utf8_world
        \<lparr>getenv_log := [''OPENAI_API_KEY''],
         stdout := ''Warning: No API key provided for openai\<newline>''\<rparr>) \<and>
   (\<exists>s. explain_code \<lparr>provider = ''openai'', api_key = None\<rparr>
          ''def add(a, b):\<newline>    return a + b\<newline>'' = Inr s)"
proof -
  let ?w = posix_utf8_world
  let ?code = "''def add(a, b):\<newline>    return a + b\<newline>''"
  have unset: "environ ?w (upper ?w ''openai'' @ ''_API_KEY'') = None"
    by (simp add: posix_utf8_world_def)
  have name: "fs_encodes ?w (upper ?w ''openai'' @ ''_API_KEY'')"
    by (simp only: upper_openai openai_name_encodable)
  note warning = openai_warning_encodable
  note at_openai = init_missing_key [OF unset name warning, of "''x''" "''python''" ?code]
  from at_openai have constructed: "init None ''openai'' ?w =
      (Inr \<lparr>provider = ''openai'', api_key = None\<rparr>,
       ?w\<lparr>getenv_log := getenv_log ?w @ [upper ?w ''openai'' @ ''_API_KEY''],
          stdout := stdout ?w @ ''Warning: No API key provided for '' @ ''openai'' @ ''\<newline>''\<rparr>)"
    by (rule conjunct1)
  have fresh: "getenv_log ?w = [] \<and> stdout ?w = []"
    by (simp add: posix_utf8_world_def)
  from at_openai have explained:
    "\<exists>s. explain_code \<lparr>provider = ''openai'', api_key = None\<rparr> ?code = Inr s"
    by blast
  from unset name warning constructed fresh explained show ?thesis
    by (simp add: upper_openai)
qed


text \<open>
  C5 as stated, for every provider string, fails: in the sample run the provider
  \<open>U+D800\<close> has its variable unset, and the constructor raises \<^verbatim>\<open>UnicodeEncodeError\<close> from
  \<^verbatim>\<open>os.getenv\<close> instead of returning an object.
\<close>

theorem init_raises_for_lone_surrogate:
  "environ posix_utf8_world (upper posix_utf8_world lone_surrogate @ ''_API_KEY'') = None \<and>
   fst (init None lone_surrogate posix_utf8_world) =
     Inl (UnicodeEncodeError (lone_surrogate @ ''_API_KEY''))"
proof -
  have "\<not> fs_encodes posix_utf8_world (upper posix_utf8_world lone_surrogate @ ''_API_KEY'')"
    by (simp only: upper_lone_surrogate lone_surrogate_name_unencodable simp_thms)
  then have "fst (init None lone_surrogate posix_utf8_world) =
      Inl (UnicodeEncodeError (upper posix_utf8_world lone_surrogate @ ''_API_KEY''))"
    by (simp add: init_fallback_unencodable_name)
  moreover have "environ posix_utf8_world (upper posix_utf8_world lone_surrogate @ ''_API_KEY'') = None"
    by (simp add: posix_utf8_world_def)
  ultimately show ?thesis
    by (simp only: upper_lone_surrogate simp_thms)
qed

text \<open>
  C7. Constructed with the explicit key \<open>abc123\<close> and provider \<open>openai\<close>, the object has
  \<open>api_key = abc123\<close> and the process is returned as it was: \<open>os.getenv\<close> is not called
  (nothing is added to the log of lookups) and nothing is printed. The object is the
  same under every environment, so with \<open>OPENAI_API_KEY\<close> set to anything or unset.
\<close>

theorem init_explicit_key_ignores_environment:
  "init (Some ''abc123'') ''openai'' w =
     (Inr \<lparr>provider = ''openai'', api_key = Some ''abc123''\<rparr>, w) \<and>
   getenv_log (snd (init (Some ''abc123'') ''openai'' w)) = getenv_log w \<and>
   (\<forall>env. fst (init (Some ''abc123'') ''openai'' (w\<lparr>environ := env\<rparr>)) =
            Inr \<lparr>provider = ''openai'', api_key = Some ''abc123''\<rparr>)"
  by (simp add: init_explicit)

text \<open>
  C8, as the code has it. For every provider \<open>p\<close>, constructed without an explicit key, the
  constructor calls \<^verbatim>\<open>os.getenv\<close> exactly once, with the upper-cased provider followed by
  \<open>_API_KEY\<close>; for the provider \<open>openai\<close> that name is \<open>OPENAI_API_KEY\<close>. When the filesystem
  encoding can encode that name, and the value found is a non-empty string or standard
  output can encode the warning line, the object is returned and what the environment
  holds under that name (a string, or nothing) is its \<open>api_key\<close>.
\<close>

theorem init_resolves_key_from_environment:
  "getenv_log (snd (init None p w)) = getenv_log w @ [upper w p @ ''_API_KEY''] \<and>
   upper w ''openai'' @ ''_API_KEY'' = ''OPENAI_API_KEY'' \<and>
   (fs_encodes w (upper w p @ ''_API_KEY'') \<and>
    (truthy (environ w (upper w p @ ''_API_KEY'')) \<or>
     stdout_encodes w (''Warning: No API key provided for '' @ p)) \<longrightarrow>
      fst (init None p w) =
        Inr \<lparr>provider = p, api_key = environ w (upper w p @ ''_API_KEY'')\<rparr>)"
proof -
  have resolved: "fst (init None p w) =
          Inr \<lparr>provider = p, api_key = environ w (upper w p @ ''_API_KEY'')\<rparr>"
    if name: "fs_encodes w (upper w p @ ''_API_KEY'')"
      and rest: "truthy (environ w (upper w p @ ''_API_KEY'')) \<or>
         stdout_encodes w (''Warning: No API key provided for '' @ p)"
  proof (cases "truthy (environ w (upper w p @ ''_API_KEY''))")
    case True
    with name show ?thesis
      by (simp add: init_fallback_found)
  next
    case False
    with name rest show ?thesis
      by (simp add: init_fallback_warned)
  qed
  have looked_up: "getenv_log (snd (init None p w)) =
      getenv_log w @ [upper w p @ ''_API_KEY'']"
    by (simp add: init_fallback_log)
  from resolved looked_up upper_openai [of w] show ?thesis
    by blast
qed

text \<open>
  In the sample run with \<open>U+00C9\<close>\<open>_API_KEY\<close> set, the provider \<open>U+00E9\<close> gets its key from
  that variable.
\<close>

theorem init_resolves_key_from_environment_witness:
  "fs_encodes (posix_utf8_world\<lparr>environ := [capital_e_acute @ ''_API_KEY'' \<mapsto> ''sk-1'']\<rparr>)
     (upper (posix_utf8_world\<lparr>environ := [capital_e_acute @ ''_API_KEY'' \<mapsto> ''sk-1'']\<rparr>)
        e_acute @ ''_API_KEY'') \<and>
   truthy (environ (posix_utf8_world\<lparr>environ := [capital_e_acute @ ''_API_KEY'' \<mapsto> ''sk-1'']\<rparr>)
     (upper (posix_utf8_world\<lparr>environ := [capital_e_acute @ ''_API_KEY'' \<mapsto> ''sk-1'']\<rparr>)
        e_acute @ ''_API_KEY'')) \<and>
   fst (init None e_acute
          (posix_utf8_world\<lparr>environ := [capital_e_acute @ ''_API_KEY'' \<mapsto> ''sk-1'']\<rparr>)) =
     Inr \<lparr>provider = e_acute, api_key = Some ''sk-1''\<rparr> \<and>
   getenv_log (snd (init None e_acute
          (posix_utf8_world\<lparr>environ := [capital_e_acute @ ''_API_KEY'' \<mapsto> ''sk-1'']\<rparr>))) =
     [capital_e_acute @ ''_API_KEY'']"
proof -
  let ?w = "posix_utf8_world\<lparr>environ := [capital_e_acute @ ''_API_KEY'' \<mapsto> ''sk-1'']\<rparr>"
  have name: "upper ?w e_acute @ ''_API_KEY'' = capital_e_acute @ ''_API_KEY''"
    by (simp add: upper_def isascii_def posix_utf8_world_def sample_unicode_upper_def
          e_acute_def)
  have encodable: "fs_encodes ?w (upper ?w e_acute @ ''_API_KEY'')"
    by (simp add: name e_acute_name_encodable)
  have found: "environ ?w (upper ?w e_acute @ ''_API_KEY'') = Some ''sk-1''"
    by (simp add: name)
  then have set: "truthy (environ ?w (upper ?w e_acute @ ''_API_KEY''))"
    by simp
  have fresh: "getenv_log ?w = []"
    by (simp add: posix_utf8_world_def)
  from init_resolves_key_from_environment [of e_acute ?w] encodable set
  have "fst (init None e_acute ?w) =
          Inr \<lparr>provider = e_acute, api_key = environ ?w (upper ?w e_acute @ ''_API_KEY'')\<rparr>"
    and "getenv_log (snd (init None e_acute ?w)) =
          getenv_log ?w @ [upper ?w e_acute @ ''_API_KEY'']"
    by blast+
  with encodable set show ?thesis
    by (simp add: name fresh)
qed

text \<open>
  C8 as stated, for every provider string, fails: in the sample run the constructor calls
  \<^verbatim>\<open>os.getenv\<close> for the provider \<open>U+D800\<close> with the expected name, the call raises, and no
  object holds a resolved key.
\<close>

theorem init_resolves_nothing_for_lone_surrogate:
  "getenv_log (snd (init None lone_surrogate posix_utf8_world)) =
     [lone_surrogate @ ''_API_KEY''] \<and>
   fst (init None lone_surrogate posix_utf8_world) =
     Inl (UnicodeEncodeError (lone_surrogate @ ''_API_KEY''))"
proof -
  have "\<not> fs_encodes posix_utf8_world (upper posix_utf8_world lone_surrogate @ ''_API_KEY'')"
    by (simp only: upper_lone_surrogate lone_surrogate_name_unencodable simp_thms)
  then have "init None lone_surrogate posix_utf8_world =
      (Inl (UnicodeEncodeError (upper posix_utf8_world lone_surrogate @ ''_API_KEY'')),
       posix_utf8_world\<lparr>getenv_log := getenv_log posix_utf8_world
          @ [upper posix_utf8_world lone_surrogate @ ''_API_KEY'']\<rparr>)"
    by (simp add: init_fallback_unencodable_name)
  moreover have "getenv_log posix_utf8_world = []"
    by (simp add: posix_utf8_world_def)
  ultimately show ?thesis
    by (simp add: upper_lone_surrogate)
qed

text \<open>
  C10, as the code has it. An explicit empty key is not kept: the constructor does
  exactly what it does without a key, so it calls \<^verbatim>\<open>os.getenv\<close> with the upper-cased
  provider followed by \<open>_API_KEY\<close>. When that variable is unset, its name can be encoded by
  the filesystem encoding and the warning line by standard output, the object has
  \<open>api_key = None\<close> and the warning line is printed.
\<close>

theorem init_empty_key_is_absent:
  "init (Some '''') p w = init None p w \<and>
   getenv_log (snd (init (Some '''') p w)) = getenv_log w @ [upper w p @ ''_API_KEY''] \<and>
   (environ w (upper w p @ ''_API_KEY'') = None \<and>
    fs_encodes w (upper w p @ ''_API_KEY'') \<and>
    stdout_encodes w (''Warning: No API key provided for '' @ p) \<longrightarrow>
      init (Some '''') p w =
        (Inr \<lparr>provider = p, api_key = None\<rparr>,
         w\<lparr>getenv_log := getenv_log w @ [upper w p @ ''_API_KEY''],
           stdout := stdout w @ ''Warning: No API key provided for '' @ p @ ''\<newline>''\<rparr>))"
proof -
  have same: "init (Some '''') p w = init None p w"
    by (simp add: init_def)
  have looked_up: "getenv_log (snd (init (Some '''') p w)) =
      getenv_log w @ [upper w p @ ''_API_KEY'']"
    by (simp add: init_fallback_log)
  have warned: "init (Some '''') p w =
        (Inr \<lparr>provider = p, api_key = None\<rparr>,
         w\<lparr>getenv_log := getenv_log w @ [upper w p @ ''_API_KEY''],
           stdout := stdout w @ ''Warning: No API key provided for '' @ p @ ''\<newline>''\<rparr>)"
    if "environ w (upper w p @ ''_API_KEY'') = None"
      and "fs_encodes w (upper w p @ ''_API_KEY'')"
      and "stdout_encodes w (''Warning: No API key provided for '' @ p)"
    using that init_fallback_warned [of "Some ''''" w p] by simp
  from same looked_up warned show ?thesis
    by blast
qed

theorem init_empty_key_is_absent_witness:
  "environ posix_utf8_world (upper posix_utf8_world ''openai'' @ ''_API_KEY'') = None \<and>
   fs_encodes posix_utf8_world (upper posix_utf8_world ''openai'' @ ''_API_KEY'') \<and>
   stdout_encodes posix_utf8_world (''Warning: No API key provided for '' @ ''openai'') \<and>
   init (Some '''') ''openai'' posix_utf8_world =
     (Inr \<lparr>provider = ''openai'', api_key = None\<rparr>,
      posix_utf8_world
        \<lparr>getenv_log := [''OPENAI_API_KEY''],
         stdout := ''Warning: No API key provided for openai\<newline>''\<rparr>)"
proof -
  let ?w = posix_utf8_world
  have unset: "environ ?w (upper ?w ''openai'' @ ''_API_KEY'') = None"
    by (simp add: posix_utf8_world_def)
  have name: "fs_encodes ?w (upper ?w ''openai'' @ ''_API_KEY'')"
    by (simp only: upper_openai openai_name_encodable)
  note warning = openai_warning_encodable
  have fresh: "getenv_log ?w = [] \<and> stdout ?w = []"
    by (simp add: posix_utf8_world_def)
  from init_empty_key_is_absent [of "''openai''" ?w] unset name warning
  have "init (Some '''') ''openai'' ?w =
        (Inr \<lparr>provider = ''openai'', api_key = None\<rparr>,
         ?w\<lparr>getenv_log := getenv_log ?w @ [upper ?w ''openai'' @ ''_API_KEY''],
            stdout := stdout ?w @ ''Warning: No API key provided for '' @ ''openai'' @ ''\<newline>''\<rparr>)"
    by blast
  with unset name warning fresh show ?thesis
    by (simp add: upper_openai)
qed

text \<open>
  C10 as stated, with no condition on the provider, fails: in the sample run, with the
  empty key and the provider \<open>U+D800\<close>, the variable is unset and the constructor raises
  from \<^verbatim>\<open>os.getenv\<close>; there is no object and no warning.
\<close>

theorem init_empty_key_raises_for_lone_surrogate:
  "environ posix_utf8_world (upper posix_utf8_world lone_surrogate @ ''_API_KEY'') = None \<and>
   init (Some '''') lone_surrogate posix_utf8_world =
     (Inl (UnicodeEncodeError (lone_surrogate @ ''_API_KEY'')),
      posix_utf8_world\<lparr>getenv_log := [lone_surrogate @ ''_API_KEY'']\<rparr>)"
proof -
  have "\<not> fs_encodes posix_utf8_world (upper posix_utf8_world lone_surrogate @ ''_API_KEY'')"
    by (simp only: upper_lone_surrogate lone_surrogate_name_unencodable simp_thms)
  then have "init (Some '''') lone_surrogate posix_utf8_world =
      (Inl (UnicodeEncodeError (upper posix_utf8_world lone_surrogate @ ''_API_KEY'')),
       posix_utf8_world\<lparr>getenv_log := getenv_log posix_utf8_world
          @ [upper posix_utf8_world lone_surrogate @ ''_API_KEY'']\<rparr>)"
    by (simp add: init_fallback_unencodable_name)
  moreover have "getenv_log posix_utf8_world = []"
    by (simp add: posix_utf8_world_def)
  moreover have "environ posix_utf8_world
      (upper posix_utf8_world lone_surrogate @ ''_API_KEY'') = None"
    by (simp add: posix_utf8_world_def)
  ultimately show ?thesis
    by (simp add: upper_lone_surrogate)
qed

end
